theory Spec2Isabelle
  imports Main
begin

text \<open>
  A model of \<open>json5/lib.py\<close>: the encoder class \<open>_Encoder\<close>, the decoder class
  \<open>_Decoder\<close> and the module functions around them, read as Python 3 (integers are
  unbounded, \<open>str\<close> is Unicode text, the branches under \<open>_is_python2\<close> are not taken).
\<close>

section \<open>Text, errors and native values\<close>

text \<open>
  A Python 3 \<open>str\<close> is a sequence of code points, so it is modelled as a list of
  natural numbers (a \<open>char\<close> of HOL is a byte and could not hold the characters the
  encoder escapes). \<open>lit\<close> turns an ASCII literal of the source into such a list.
\<close>

type_synonym pystr = "nat list"

definition lit :: "string \<Rightarrow> pystr" where
  "lit s = map of_char s"

text \<open>lib.py, lines 121-123.\<close>

definition squote :: nat where "squote = 39"
definition dquote :: nat where "dquote = 34"
definition bslash :: nat where "bslash = 92"

text \<open>
  The exceptions the module can raise, by Python class. The arguments the source passes
  (\<open>ValueError(obj)\<close>, \<open>TypeError(k)\<close>) are dropped; a \<open>NameError\<close> and an
  \<open>UnboundLocalError\<close> keep the name that was not bound.
\<close>

datatype error =
    ValueError
  | TypeError
  | KeyError
  | AssertionError
  | NameError string
  | UnboundLocalError string
  | Exception

text \<open>
  A run of recursive code either uses up the fuel of the model, raises, or returns.
\<close>

datatype 'a outcome = OutOfFuel | Raise error | Return 'a

text \<open>
  A float is not-a-number, an infinity, or a finite double \<open>m * 2 ^ e\<close>. The module
  never computes with floats; it only asks whether one is finite.
\<close>

datatype pyfloat = NaN | PosInf | NegInf | Finite int int

text \<open>
  Native values. Lists and dicts are objects with an identity: a value refers to one by
  its address (what \<open>id(obj)\<close> returns) and the heap holds its contents, so that one
  container can occur twice in a value and can contain itself. A dict is the list of its
  items in iteration order. \<open>POther\<close> stands for a value of any other type (a tuple, a
  set, an instance of a user class), named by its type.
\<close>

type_synonym addr = nat

datatype pyval =
    PNone
  | PBool bool
  | PInt int
  | PFloat pyfloat
  | PStr pystr
  | PRef addr
  | POther string

datatype pyobj = ODict "(pyval \<times> pyval) list" | OList "pyval list"

type_synonym heap = "addr \<Rightarrow> pyobj"

section \<open>What the module takes from Python\<close>

text \<open>
  The names bound at module level in lib.py: the four imports of lines 15-18, the
  import of line 20, and the module's own definitions. A name that is looked up at run
  time and is neither here nor a builtin raises \<open>NameError\<close>.
\<close>

definition module_globals :: "string list" where
  "module_globals =
     [''collections'', ''re'', ''json'', ''sys'', ''Parser'', ''_is_python2'',
      ''load'', ''loads'', ''_Decoder'', ''dumps'', ''dump'',
      ''squote'', ''dquote'', ''bslash'', ''_Encoder'']"

definition global_lookup :: "string \<Rightarrow> error + unit" where
  "global_lookup name =
     (if name \<in> set module_globals then Inr () else Inl (NameError name))"

text \<open>\<open>math.isnan(obj)\<close> and \<open>math.isinf(obj)\<close>: the name \<open>math\<close> is looked up first.\<close>

definition math_isnan :: "pyfloat \<Rightarrow> error + bool" where
  "math_isnan f =
     (case global_lookup ''math'' of Inl e \<Rightarrow> Inl e | Inr _ \<Rightarrow> Inr (f = NaN))"

definition math_isinf :: "pyfloat \<Rightarrow> error + bool" where
  "math_isinf f =
     (case global_lookup ''math'' of
        Inl e \<Rightarrow> Inl e
      | Inr _ \<Rightarrow> Inr (f = PosInf \<or> f = NegInf))"

text \<open>
  Library functions the module calls and this development does not define: the builtin
  \<open>sorted\<close> on a list of keys, the Unicode table behind the pattern \<open>\W\<close> beyond
  ASCII, the builtin \<open>float\<close> on text, \<open>bytes.decode\<close>, and the builtin \<open>int\<close> on
  every text that is not a plain literal (\<open>int_other\<close>, see \<open>int_py\<close>). With them
  comes one setting of the interpreter: \<open>max_str_digits\<close> is
  \<open>sys.get_int_max_str_digits()\<close>, the longest run of decimal digits that \<open>str\<close>
  writes for an integer; it is 0 where there is no limit (always so before CPython 3.11)
  and 4300 unless changed.
\<close>

record builtins =
  sorted_py :: "pyval list \<Rightarrow> error + pyval list"
  isalnum_uni :: "nat \<Rightarrow> bool"
  float_py :: "pystr \<Rightarrow> error + pyfloat"
  bytes_decode :: "pystr \<Rightarrow> nat list \<Rightarrow> error + pystr"
  int_other :: "pystr \<Rightarrow> nat option \<Rightarrow> error + int"
  max_str_digits :: nat

text \<open>
  \<open>str(obj)\<close> of an integer: its decimal digits, with a minus sign when negative
  (\<open>str_int\<close>), unless the digits are more than the interpreter's limit, when
  \<open>str\<close> raises \<open>ValueError\<close> (\<open>str_py\<close>).
\<close>

function dec_digits :: "nat \<Rightarrow> pystr" where
  "dec_digits n = (if n < 10 then [48 + n] else dec_digits (n div 10) @ [48 + n mod 10])"
  by pat_completeness auto
termination
  by (relation "measure id") auto

declare dec_digits.simps [simp del]

definition str_int :: "int \<Rightarrow> pystr" where
  "str_int i = (if i < 0 then 45 # dec_digits (nat (- i)) else dec_digits (nat i))"

definition str_py :: "builtins \<Rightarrow> int \<Rightarrow> error + pystr" where
  "str_py b i =
     (if 0 < max_str_digits b \<and> max_str_digits b < length (dec_digits (nat \<bar>i\<bar>))
      then Inl ValueError
      else Inr (str_int i))"

text \<open>\<open>'%04x' % o\<close>: lower-case hexadecimal digits, padded with zeros to four.\<close>

definition hex_digit :: "nat \<Rightarrow> nat" where
  "hex_digit d = (if d < 10 then 48 + d else 87 + d)"

function hex_digits :: "nat \<Rightarrow> pystr" where
  "hex_digits n =
     (if n < 16 then [hex_digit n] else hex_digits (n div 16) @ [hex_digit (n mod 16)])"
  by pat_completeness auto
termination
  by (relation "measure id") auto

declare hex_digits.simps [simp del]

definition fmt_04x :: "nat \<Rightarrow> pystr" where
  "fmt_04x n = replicate (4 - length (hex_digits n)) 48 @ hex_digits n"

text \<open>
  \<open>self._notletter.search(k)\<close> on a text: is there a character that \<open>\W\<close> matches,
  that is, one that is neither a letter, a digit nor the underscore.
\<close>

definition is_word :: "(nat \<Rightarrow> bool) \<Rightarrow> nat \<Rightarrow> bool" where
  "is_word ua c =
     (if c < 128
      then (48 \<le> c \<and> c \<le> 57) \<or> (65 \<le> c \<and> c \<le> 90) \<or> c = 95 \<or> (97 \<le> c \<and> c \<le> 122)
      else ua c)"

definition notletter_search :: "(nat \<Rightarrow> bool) \<Rightarrow> pystr \<Rightarrow> bool" where
  "notletter_search ua k = list_ex (\<lambda>c. \<not> is_word ua c) k"

section \<open>The encoder\<close>

text \<open>
  The fields \<open>_Encoder.__init__\<close> sets from its arguments (lines 135-147); \<open>comma\<close>
  and \<open>colon\<close> are \<open>_comma\<close> and \<open>_colon\<close>, \<open>default_hook\<close> is \<open>self.default\<close>.
\<close>

type_synonym hook = "pyval \<Rightarrow> error + pyval"

record encoder =
  skipkeys :: bool
  ensure_ascii :: bool
  check_circular :: bool
  allow_nan :: bool
  indent :: "nat option"
  encoding :: pystr
  default_hook :: hook
  sort_keys :: bool
  comma :: pystr
  colon :: pystr

text \<open>The two fields the encoder changes while it runs (lines 149 and 153).\<close>

record enc_state =
  seen_objs :: "addr set"
  indent_level :: int

text \<open>The keyword arguments of \<open>_Encoder\<close>; \<open>None\<close> is an argument left out.\<close>

record encoder_kwargs =
  kw_skipkeys :: "bool option"
  kw_ensure_ascii :: "bool option"
  kw_check_circular :: "bool option"
  kw_allow_nan :: "bool option"
  kw_cls :: "string option"
  kw_indent :: "nat option"
  kw_separators :: "(pystr \<times> pystr) option"
  kw_encoding :: "pystr option"
  kw_default :: "hook option"
  kw_sort_keys :: "bool option"

text \<open>\<open>_Encoder._default\<close>, lines 155-156.\<close>

definition default_method :: hook where
  "default_method obj = Inl TypeError"

text \<open>\<open>_Encoder.__init__\<close>, lines 128-153.\<close>

definition init_encoder :: "encoder_kwargs \<Rightarrow> error + encoder" where
  "init_encoder kw =
     (if kw_cls kw \<noteq> None then Inl AssertionError
      else Inr \<lparr>
        skipkeys = (case kw_skipkeys kw of None \<Rightarrow> False | Some v \<Rightarrow> v),
        ensure_ascii = (case kw_ensure_ascii kw of None \<Rightarrow> True | Some v \<Rightarrow> v),
        check_circular = (case kw_check_circular kw of None \<Rightarrow> True | Some v \<Rightarrow> v),
        allow_nan = (case kw_allow_nan kw of None \<Rightarrow> True | Some v \<Rightarrow> v),
        indent = kw_indent kw,
        encoding = (case kw_encoding kw of None \<Rightarrow> lit ''utf-8'' | Some v \<Rightarrow> v),
        default_hook = (case kw_default kw of None \<Rightarrow> default_method | Some d \<Rightarrow> d),
        sort_keys = (case kw_sort_keys kw of None \<Rightarrow> False | Some v \<Rightarrow> v),
        comma = (case kw_separators kw of None \<Rightarrow> lit '', '' | Some (c, k) \<Rightarrow> c),
        colon = (case kw_separators kw of None \<Rightarrow> lit '': '' | Some (c, k) \<Rightarrow> k) \<rparr>)"

definition init_state :: enc_state where
  "init_state = \<lparr> seen_objs = {}, indent_level = 0 \<rparr>"

text \<open>\<open>_Encoder._esc_char\<close>, lines 175-184.\<close>

definition esc_char :: "nat \<Rightarrow> bool \<Rightarrow> bool \<Rightarrow> pystr" where
  "esc_char ch esc_squote esc_dquote =
     (if ch = dquote \<and> esc_dquote then [bslash, dquote]
      else if ch = squote \<and> esc_squote then [bslash, squote]
      else if 32 \<le> ch \<and> ch < 128 then [ch]
      else bslash # lit ''u'' @ fmt_04x ch)"

text \<open>\<open>_Encoder._esc_str\<close>, lines 167-173.\<close>

definition esc_str :: "encoder \<Rightarrow> pystr \<Rightarrow> bool \<Rightarrow> bool \<Rightarrow> pystr" where
  "esc_str enc s esc_squote esc_dquote =
     (if \<not> ensure_ascii enc then s
      else concat (map (\<lambda>ch. esc_char ch esc_squote esc_dquote) s))"

text \<open>
  The quoting both \<open>_esc_key\<close> (lines 160-163) and the string branch of \<open>dumps\<close>
  (lines 195-199) apply: the same four lines in the source, written once here.
\<close>

definition quote_str :: "encoder \<Rightarrow> pystr \<Rightarrow> pystr" where
  "quote_str enc s =
     (if squote \<notin> set s then [squote] @ esc_str enc s True False @ [squote]
      else [dquote] @ esc_str enc s False True @ [dquote])"

text \<open>
  \<open>_Encoder._esc_key\<close>, lines 158-165. The key is whatever the dict holds; the
  pattern's \<open>search\<close> raises \<open>TypeError\<close> on anything that is not text.
\<close>

definition esc_key :: "(nat \<Rightarrow> bool) \<Rightarrow> encoder \<Rightarrow> pyval \<Rightarrow> error + pystr" where
  "esc_key ua enc k =
     (case k of
        PStr ks \<Rightarrow> Inr (if notletter_search ua ks then quote_str enc ks else ks)
      | _ \<Rightarrow> Inl TypeError)"

text \<open>\<open>type(k) in self._valid_key_types\<close>, with the list of line 150.\<close>

fun valid_key_type :: "pyval \<Rightarrow> bool" where
  "valid_key_type (PStr _) = True"
| "valid_key_type (PInt _) = True"
| "valid_key_type (PFloat _) = True"
| "valid_key_type (PBool _) = True"
| "valid_key_type PNone = True"
| "valid_key_type _ = False"

text \<open>
  The condition of line 201, \<open>not self.allow_nan and math.isnan(obj) or
  math.isinf(obj)\<close>: \<open>and\<close> binds tighter than \<open>or\<close>, and both skip their right
  operand when the left one decides.
\<close>

definition nonfinite_test :: "encoder \<Rightarrow> pyfloat \<Rightarrow> error + bool" where
  "nonfinite_test enc f =
     (case (if \<not> allow_nan enc then math_isnan f else Inr False) of
        Inl e \<Rightarrow> Inl e
      | Inr True \<Rightarrow> Inr True
      | Inr False \<Rightarrow> math_isinf f)"

text \<open>
  The loop of lines 223-230 over the keys, from index \<open>i\<close> on, with \<open>s\<close> the text so
  far; \<open>rec\<close> is the recursive call \<open>self.dumps\<close>. A \<open>None\<close> returned by it cannot
  be appended to text.
\<close>

fun dict_items ::
  "(pyval \<Rightarrow> enc_state \<Rightarrow> pystr option outcome \<times> enc_state) \<Rightarrow> (nat \<Rightarrow> bool) \<Rightarrow> encoder \<Rightarrow>
   (pyval \<times> pyval) list \<Rightarrow> int \<Rightarrow> pystr \<Rightarrow> int \<Rightarrow> pyval list \<Rightarrow> pystr \<Rightarrow> enc_state \<Rightarrow>
   pystr outcome \<times> enc_state" where
  "dict_items rec ua enc kvs num_keys ind i [] s st = (Return s, st)"
| "dict_items rec ua enc kvs num_keys ind i (k # ks) s st =
     (if \<not> valid_key_type k then
        (if skipkeys enc then dict_items rec ua enc kvs num_keys ind (i + 1) ks s st
         else (Raise TypeError, st))
      else
        (case esc_key ua enc k of
           Inl e \<Rightarrow> (Raise e, st)
         | Inr ktxt \<Rightarrow>
             (case map_of kvs k of
                None \<Rightarrow> (Raise KeyError, st)
              | Some v \<Rightarrow>
                  (case rec v st of
                     (OutOfFuel, st') \<Rightarrow> (OutOfFuel, st')
                   | (Raise e, st') \<Rightarrow> (Raise e, st')
                   | (Return None, st') \<Rightarrow> (Raise TypeError, st')
                   | (Return (Some vtxt), st') \<Rightarrow>
                       dict_items rec ua enc kvs num_keys ind (i + 1) ks
                         (if i < num_keys
                          then s @ ktxt @ colon enc @ vtxt @ comma enc @ ind
                          else s @ ktxt @ colon enc @ vtxt)
                         st'))))"

text \<open>The loop of lines 250-253 over the elements.\<close>

fun list_items ::
  "(pyval \<Rightarrow> enc_state \<Rightarrow> pystr option outcome \<times> enc_state) \<Rightarrow> encoder \<Rightarrow>
   int \<Rightarrow> pystr \<Rightarrow> int \<Rightarrow> pyval list \<Rightarrow> pystr \<Rightarrow> enc_state \<Rightarrow>
   pystr outcome \<times> enc_state" where
  "list_items rec enc num_els ind i [] s st = (Return s, st)"
| "list_items rec enc num_els ind i (el # els) s st =
     (case rec el st of
        (OutOfFuel, st') \<Rightarrow> (OutOfFuel, st')
      | (Raise e, st') \<Rightarrow> (Raise e, st')
      | (Return None, st') \<Rightarrow> (Raise TypeError, st')
      | (Return (Some vtxt), st') \<Rightarrow>
          list_items rec enc num_els ind (i + 1) els
            (if i < num_els then s @ vtxt @ comma enc @ ind else s @ vtxt)
            st')"

text \<open>Lines 206-209 and 237-240: the check against \<open>_seen_objs\<close> and the insertion.\<close>

definition mark_seen :: "encoder \<Rightarrow> addr \<Rightarrow> enc_state \<Rightarrow> error + enc_state" where
  "mark_seen enc a st =
     (if check_circular enc
      then (if a \<in> seen_objs st then Inl ValueError
            else Inr (st\<lparr>seen_objs := insert a (seen_objs st)\<rparr>))
      else Inr st)"

text \<open>
  \<open>_Encoder.dumps\<close>, lines 186-259. The first argument is the depth of recursion the
  model allows. Where the source falls off the end of the function (the float branch,
  and the last branch if \<open>_default\<close> returned) the call returns \<open>None\<close>.

  Lines 217-218 and 244-245: with \<open>self.indent\<close> set, \<open>indent += ...\<close> reads the
  local variable \<open>indent\<close> before anything was assigned to it.
\<close>

primrec Encoder_dumps ::
  "nat \<Rightarrow> builtins \<Rightarrow> encoder \<Rightarrow> heap \<Rightarrow> pyval \<Rightarrow> enc_state \<Rightarrow>
   pystr option outcome \<times> enc_state" where
  "Encoder_dumps 0 b enc h obj st = (OutOfFuel, st)"
| "Encoder_dumps (Suc n) b enc h obj st =
     (case obj of
        PBool v \<Rightarrow> (Return (Some (if v then lit ''true'' else lit ''false'')), st)
      | PNone \<Rightarrow> (Return (Some (lit ''null'')), st)
      | PStr s \<Rightarrow> (Return (Some (quote_str enc s)), st)
      | PFloat f \<Rightarrow>
          (case nonfinite_test enc f of
             Inl e \<Rightarrow> (Raise e, st)
           | Inr True \<Rightarrow> (Raise ValueError, st)
           | Inr False \<Rightarrow> (Return None, st))
      | PInt i \<Rightarrow>
          (case str_py b i of
             Inl e \<Rightarrow> (Raise e, st)
           | Inr s \<Rightarrow> (Return (Some s), st))
      | PRef a \<Rightarrow>
          (case h a of
             ODict kvs \<Rightarrow>
               (case mark_seen enc a st of
                  Inl e \<Rightarrow> (Raise e, st)
                | Inr st1 \<Rightarrow>
                    (case (if sort_keys enc then sorted_py b (map fst kvs)
                           else Inr (map fst kvs)) of
                       Inl e \<Rightarrow> (Raise e, st1)
                     | Inr keys \<Rightarrow>
                         (case indent enc of
                            Some w \<Rightarrow>
                              (Raise (UnboundLocalError ''indent''),
                               st1\<lparr>indent_level := indent_level st1 + 1\<rparr>)
                          | None \<Rightarrow>
                              (case dict_items (Encoder_dumps n b enc h) (isalnum_uni b) enc kvs
                                      (int (length keys) - 1) [] 0 keys (lit ''{'' @ [])
                                      (st1\<lparr>indent_level := indent_level st1 + 1\<rparr>) of
                                 (OutOfFuel, st2) \<Rightarrow> (OutOfFuel, st2)
                               | (Raise e, st2) \<Rightarrow> (Raise e, st2)
                               | (Return s, st2) \<Rightarrow>
                                   (Return (Some (s @ lit ''}'')),
                                    st2\<lparr>indent_level := indent_level st2 - 1\<rparr>)))))
           | OList els \<Rightarrow>
               (case mark_seen enc a st of
                  Inl e \<Rightarrow> (Raise e, st)
                | Inr st1 \<Rightarrow>
                    (case indent enc of
                       Some w \<Rightarrow>
                         (Raise (UnboundLocalError ''indent''),
                          st1\<lparr>indent_level := indent_level st1 + 1\<rparr>)
                     | None \<Rightarrow>
                         (case list_items (Encoder_dumps n b enc h) enc
                                 (int (length els) - 1) [] 0 els (lit ''['' @ [])
                                 (st1\<lparr>indent_level := indent_level st1 + 1\<rparr>) of
                            (OutOfFuel, st2) \<Rightarrow> (OutOfFuel, st2)
                          | (Raise e, st2) \<Rightarrow> (Raise e, st2)
                          | (Return s, st2) \<Rightarrow>
                              (Return (Some (s @ lit '']'')),
                               st2\<lparr>indent_level := indent_level st2 - 1\<rparr>)))))
      | POther ty \<Rightarrow>
          (case default_method obj of
             Inl e \<Rightarrow> (Raise e, st)
           | Inr v \<Rightarrow> (Return None, st)))"

text \<open>
  The module's \<open>dumps\<close>, lines 105-112. \<open>compact\<close> and \<open>as_json\<close> are the two
  keyword arguments it pops (\<open>None\<close>: left out); the others go on unchanged to
  \<open>json.dumps\<close>, given as \<open>jd\<close>, or to \<open>_Encoder\<close>, whose state starts empty.
\<close>

definition dumps ::
  "(encoder_kwargs \<Rightarrow> heap \<Rightarrow> pyval \<Rightarrow> error + pystr) \<Rightarrow> nat \<Rightarrow> builtins \<Rightarrow>
   bool option \<Rightarrow> bool option \<Rightarrow> encoder_kwargs \<Rightarrow> heap \<Rightarrow> pyval \<Rightarrow> pystr option outcome" where
  "dumps jd fuel b kw_compact kw_as_json kw h obj =
     (let compact = (case kw_compact of None \<Rightarrow> False | Some c \<Rightarrow> c);
          as_json = (case kw_as_json of None \<Rightarrow> \<not> compact | Some a \<Rightarrow> a)
      in if as_json
         then (case jd kw h obj of Inl e \<Rightarrow> Raise e | Inr s \<Rightarrow> Return (Some s))
         else (case init_encoder kw of
                 Inl e \<Rightarrow> Raise e
               | Inr enc \<Rightarrow> fst (Encoder_dumps fuel b enc h obj init_state)))"

section \<open>The decoder\<close>

text \<open>
  What \<open>walk\<close> builds: a tree of fresh values, in which identity plays no part.
\<close>

datatype jval =
    JNone
  | JBool bool
  | JInt int
  | JFloat pyfloat
  | JStr pystr
  | JDict "(jval \<times> jval) list"
  | JList "jval list"

text \<open>
  A node of the parser's tree is a pair \<open>(node_type, node_val)\<close>. The four types that
  \<open>walk\<close> (line 84) answers with the node's own value are \<open>Leaf\<close>; \<open>Unknown\<close> is
  a node of a type \<open>walk\<close> does not know.
\<close>

datatype leaf_type = T_null | T_true | T_false | T_string

datatype ast =
    Leaf leaf_type jval
  | Number pystr
  | Object "(pystr \<times> ast) list"
  | Array "ast list"
  | Unknown pystr

text \<open>\<open>sub in s\<close> on text, and \<open>s.replace(old, new)\<close> for a non-empty \<open>old\<close>.\<close>

fun contains :: "pystr \<Rightarrow> pystr \<Rightarrow> bool" where
  "contains sub [] = (sub = [])"
| "contains sub (c # cs) = (take (length sub) (c # cs) = sub \<or> contains sub cs)"

fun replace_from :: "nat \<Rightarrow> pystr \<Rightarrow> pystr \<Rightarrow> pystr \<Rightarrow> pystr" where
  "replace_from k old new [] = []"
| "replace_from k old new (c # cs) =
     (if 0 < k then replace_from (k - 1) old new cs
      else if take (length old) (c # cs) = old
      then new @ replace_from (length old - 1) old new cs
      else c # replace_from 0 old new cs)"

definition replace :: "pystr \<Rightarrow> pystr \<Rightarrow> pystr \<Rightarrow> pystr" where
  "replace s old new = replace_from 0 old new s"

text \<open>
  The builtin \<open>int(s)\<close> and \<open>int(s, base=16)\<close>. \<open>int_literal\<close> is its value on a
  plain literal: an optional sign, the prefix \<open>0x\<close> or \<open>0X\<close> when the base is 16,
  then one to 640 ASCII digits of the base (no setting of the interpreter limits so few
  digits). On any other text (blanks around the number, underscores between digits,
  digits of other scripts, longer numbers, text that is no number, another base) the
  result is the builtin's, whatever it is: \<open>int_other\<close>.
\<close>

definition digit_val :: "nat \<Rightarrow> nat option" where
  "digit_val c =
     (if 48 \<le> c \<and> c \<le> 57 then Some (c - 48)
      else if 97 \<le> c \<and> c \<le> 122 then Some (c - 87)
      else if 65 \<le> c \<and> c \<le> 90 then Some (c - 55)
      else None)"

fun digits_val :: "nat \<Rightarrow> nat \<Rightarrow> pystr \<Rightarrow> nat option" where
  "digits_val base acc [] = Some acc"
| "digits_val base acc (c # cs) =
     (case digit_val c of
        None \<Rightarrow> None
      | Some d \<Rightarrow> if d < base then digits_val base (acc * base + d) cs else None)"

definition int_literal :: "pystr \<Rightarrow> nat option \<Rightarrow> int option" where
  "int_literal s base =
     (if base = None \<or> base = Some 16
      then (let bs = (case base of None \<Rightarrow> 10 | Some v \<Rightarrow> v);
                neg = (take 1 s = lit ''-'');
                r = (if take 1 s = lit ''-'' \<or> take 1 s = lit ''+'' then drop 1 s else s);
                ds = (if bs = 16 \<and> (take 2 r = lit ''0x'' \<or> take 2 r = lit ''0X'')
                      then drop 2 r else r)
            in if ds = [] \<or> 640 < length ds then None
               else (case digits_val bs 0 ds of
                       None \<Rightarrow> None
                     | Some n \<Rightarrow> Some (if neg then - int n else int n)))
      else None)"

definition int_py :: "builtins \<Rightarrow> pystr \<Rightarrow> nat option \<Rightarrow> error + int" where
  "int_py b s base =
     (case int_literal s base of Some v \<Rightarrow> Inr v | None \<Rightarrow> int_other b s base)"

text \<open>\<open>dict(pairs)\<close>: a later pair with a key already there replaces its value in place.\<close>

fun dict_set :: "(jval \<times> jval) list \<Rightarrow> jval \<Rightarrow> jval \<Rightarrow> (jval \<times> jval) list" where
  "dict_set [] k v = [(k, v)]"
| "dict_set (p # ps) k v = (if fst p = k then (k, v) # ps else p # dict_set ps k v)"

definition dict_py :: "(jval \<times> jval) list \<Rightarrow> (jval \<times> jval) list" where
  "dict_py pairs = foldl (\<lambda>d p. dict_set d (fst p) (snd p)) [] pairs"

text \<open>The fields \<open>_Decoder.__init__\<close> sets (lines 48-59) and its keyword arguments.\<close>

record decoder =
  dec_encoding :: pystr
  parse_float :: "pystr \<Rightarrow> error + jval"
  parse_int :: "pystr \<Rightarrow> nat option \<Rightarrow> error + jval"
  parse_constant :: "pystr \<Rightarrow> error + jval"
  object_pairs_hook :: "(jval \<times> jval) list \<Rightarrow> error + jval"

record decoder_kwargs =
  dk_encoding :: "pystr option"
  dk_cls :: "string option"
  dk_object_hook :: "(jval \<Rightarrow> error + jval) option"
  dk_parse_float :: "(pystr \<Rightarrow> error + jval) option"
  dk_parse_int :: "(pystr \<Rightarrow> nat option \<Rightarrow> error + jval) option"
  dk_parse_constant :: "(pystr \<Rightarrow> error + jval) option"
  dk_object_pairs_hook :: "((jval \<times> jval) list \<Rightarrow> error + jval) option"

text \<open>The defaults: the builtins \<open>float\<close> and \<open>int\<close>, and the method of lines 61-62.\<close>

definition float_default :: "builtins \<Rightarrow> pystr \<Rightarrow> error + jval" where
  "float_default b s = (case float_py b s of Inl e \<Rightarrow> Inl e | Inr f \<Rightarrow> Inr (JFloat f))"

definition int_default :: "builtins \<Rightarrow> pystr \<Rightarrow> nat option \<Rightarrow> error + jval" where
  "int_default b s base =
     (case int_py b s base of Inl e \<Rightarrow> Inl e | Inr i \<Rightarrow> Inr (JInt i))"

definition parse_constant_method :: "builtins \<Rightarrow> pystr \<Rightarrow> error + jval" where
  "parse_constant_method b s =
     float_default b
       (replace (replace s (lit ''Infinity'') (lit ''inf'')) (lit ''NaN'') (lit ''nan''))"

definition init_decoder :: "builtins \<Rightarrow> decoder_kwargs \<Rightarrow> error + decoder" where
  "init_decoder b kw =
     (if dk_cls kw \<noteq> None then Inl AssertionError
      else Inr \<lparr>
        dec_encoding =
          (case dk_encoding kw of
             None \<Rightarrow> lit ''utf-8''
           | Some e \<Rightarrow> if e = [] then lit ''utf-8'' else e),
        parse_float = (case dk_parse_float kw of None \<Rightarrow> float_default b | Some f \<Rightarrow> f),
        parse_int = (case dk_parse_int kw of None \<Rightarrow> int_default b | Some f \<Rightarrow> f),
        parse_constant =
          (case dk_parse_constant kw of None \<Rightarrow> parse_constant_method b | Some f \<Rightarrow> f),
        object_pairs_hook =
          (case dk_object_pairs_hook kw of
             Some ph \<Rightarrow> ph
           | None \<Rightarrow>
               (case dk_object_hook kw of
                  Some oh \<Rightarrow> (\<lambda>pairs. oh (JDict (dict_py pairs)))
                | None \<Rightarrow> (\<lambda>pairs. Inr (JDict (dict_py pairs))))) \<rparr>)"

text \<open>\<open>_Decoder.walk\<close>, lines 82-101, with the two comprehensions as loops.\<close>

fun walk :: "decoder \<Rightarrow> ast \<Rightarrow> error + jval"
  and walk_pairs :: "decoder \<Rightarrow> (pystr \<times> ast) list \<Rightarrow> error + (jval \<times> jval) list"
  and walk_els :: "decoder \<Rightarrow> ast list \<Rightarrow> error + jval list" where
  "walk d (Leaf t node_val) = Inr node_val"
| "walk d (Number node_val) =
     (if take 2 node_val = lit ''0x'' \<or> take 2 node_val = lit ''0X''
      then parse_int d node_val (Some 16)
      else if 46 \<in> set node_val \<or> 101 \<in> set node_val \<or> 69 \<in> set node_val
      then parse_float d node_val
      else if contains (lit ''Infinity'') node_val \<or> contains (lit ''NaN'') node_val
      then parse_constant d node_val
      else parse_int d node_val None)"
| "walk d (Object node_val) =
     (case walk_pairs d node_val of
        Inl e \<Rightarrow> Inl e
      | Inr pairs \<Rightarrow> object_pairs_hook d pairs)"
| "walk d (Array node_val) =
     (case walk_els d node_val of Inl e \<Rightarrow> Inl e | Inr els \<Rightarrow> Inr (JList els))"
| "walk d (Unknown t) = Inl Exception"
| "walk_pairs d [] = Inr []"
| "walk_pairs d (kv # rest) =
     (case walk d (snd kv) of
        Inl e \<Rightarrow> Inl e
      | Inr v \<Rightarrow>
          (case walk_pairs d rest of
             Inl e \<Rightarrow> Inl e
           | Inr pairs \<Rightarrow> Inr ((JStr (fst kv), v) # pairs)))"
| "walk_els d [] = Inr []"
| "walk_els d (el # rest) =
     (case walk d el of
        Inl e \<Rightarrow> Inl e
      | Inr v \<Rightarrow>
          (case walk_els d rest of Inl e \<Rightarrow> Inl e | Inr els \<Rightarrow> Inr (v # els)))"

text \<open>
  \<open>_Decoder.loads\<close>, lines 64-80. Its argument is text, bytes, or (when it is handed
  the result of a call that returned nothing) \<open>None\<close>. The parser is not part of
  lib.py: it is the parameter \<open>parse\<close>, giving a tree and an error message or none.
\<close>

datatype loads_arg = ArgStr pystr | ArgBytes "nat list" | ArgNone

definition Decoder_loads ::
  "(pystr \<Rightarrow> ast \<times> pystr option) \<Rightarrow> builtins \<Rightarrow> decoder \<Rightarrow> loads_arg \<Rightarrow> error + jval" where
  "Decoder_loads parse b d arg =
     (case (case arg of
              ArgBytes bs \<Rightarrow>
                (case bytes_decode b (dec_encoding d) bs of
                   Inl e \<Rightarrow> Inl e
                 | Inr s \<Rightarrow> Inr (Some s))
            | ArgStr s \<Rightarrow> Inr (Some s)
            | ArgNone \<Rightarrow> Inr None) of
        Inl e \<Rightarrow> Inl e
      | Inr None \<Rightarrow> Inl ValueError
      | Inr (Some s) \<Rightarrow>
          (if s = [] then Inl ValueError
           else (case parse s of
                   (tree, Some msg) \<Rightarrow> if msg \<noteq> [] then Inl ValueError else walk d tree
                 | (tree, None) \<Rightarrow> walk d tree)))"

text \<open>Decoding what the encoder returned: \<open>_Decoder.loads(_Encoder.dumps(v))\<close>.\<close>

definition roundtrip ::
  "(pystr \<Rightarrow> ast \<times> pystr option) \<Rightarrow> nat \<Rightarrow> builtins \<Rightarrow> decoder \<Rightarrow> encoder \<Rightarrow> heap \<Rightarrow>
   pyval \<Rightarrow> jval outcome" where
  "roundtrip parse fuel b d enc h v =
     (case fst (Encoder_dumps fuel b enc h v init_state) of
        OutOfFuel \<Rightarrow> OutOfFuel
      | Raise e \<Rightarrow> Raise e
      | Return r \<Rightarrow>
          (case Decoder_loads parse b d (case r of None \<Rightarrow> ArgNone | Some s \<Rightarrow> ArgStr s) of
             Inl e \<Rightarrow> Raise e
           | Inr v' \<Rightarrow> Return v'))"

section \<open>Inputs and reference definitions used by the theorems\<close>

text \<open>
  \<open>_Encoder()\<close> with no argument: the defaults of the signature, lines 128-132.
\<close>

definition kwargs_none :: encoder_kwargs where
  "kwargs_none = \<lparr> kw_skipkeys = None, kw_ensure_ascii = None, kw_check_circular = None,
     kw_allow_nan = None, kw_cls = None, kw_indent = None, kw_separators = None,
     kw_encoding = None, kw_default = None, kw_sort_keys = None \<rparr>"

definition encoder_default :: encoder where
  "encoder_default = \<lparr> skipkeys = False, ensure_ascii = True, check_circular = True,
     allow_nan = True, indent = None, encoding = lit ''utf-8'', default_hook = default_method,
     sort_keys = False, comma = lit '', '', colon = lit '': '' \<rparr>"

definition decoder_kwargs_none :: decoder_kwargs where
  "decoder_kwargs_none = \<lparr> dk_encoding = None, dk_cls = None, dk_object_hook = None,
     dk_parse_float = None, dk_parse_int = None, dk_parse_constant = None,
     dk_object_pairs_hook = None \<rparr>"

text \<open>
  Stand-ins for the library on inputs where none of it is called (no sorting, ASCII
  keys only, no float text, no bytes, plain integer literals), with the interpreter's
  default limit of 4300 digits; the same with a \<open>float\<close> that knows the one text
  \<open>3.0\<close>; a stand-in for \<open>json.dumps\<close> that marks its output; and a heap in which
  every address holds an empty list.
\<close>

definition builtins_unused :: builtins where
  "builtins_unused = \<lparr> sorted_py = (\<lambda>ks. Inl TypeError), isalnum_uni = (\<lambda>c. False),
     float_py = (\<lambda>s. Inl ValueError), bytes_decode = (\<lambda>enc bs. Inl ValueError),
     int_other = (\<lambda>s base. Inl ValueError), max_str_digits = 4300 \<rparr>"

definition builtins_sample :: builtins where
  "builtins_sample = \<lparr> sorted_py = (\<lambda>ks. Inl TypeError), isalnum_uni = (\<lambda>c. False),
     float_py = (\<lambda>s. if s = lit ''3.0'' then Inr (Finite 3 0) else Inl ValueError),
     bytes_decode = (\<lambda>enc bs. Inl ValueError),
     int_other = (\<lambda>s base. Inl ValueError), max_str_digits = 4300 \<rparr>"

definition json_dumps_stub :: "encoder_kwargs \<Rightarrow> heap \<Rightarrow> pyval \<Rightarrow> error + pystr" where
  "json_dumps_stub kw h obj = Inr (lit ''<json.dumps>'')"

definition heap_empty :: heap where
  "heap_empty = (\<lambda>a. OList [])"

text \<open>
  The quoting of a string as the amended claim C6 words it, to be compared with
  \<open>quote_str\<close>: a character from 32 to 127 stands for itself, any other is
  \<open>\u\<close> and its hexadecimal code point; no quote is escaped inside single quotes, and
  inside double quotes the double quote is.
\<close>

definition ascii_escape :: "nat \<Rightarrow> pystr" where
  "ascii_escape c = (if 32 \<le> c \<and> c < 128 then [c] else bslash # lit ''u'' @ fmt_04x c)"

definition quote_amended :: "bool \<Rightarrow> pystr \<Rightarrow> pystr" where
  "quote_amended ascii_only s =
     (if squote \<notin> set s
      then [squote] @ (if ascii_only then concat (map ascii_escape s) else s) @ [squote]
      else [dquote]
           @ (if ascii_only
              then concat (map (\<lambda>c. if c = dquote then [bslash, dquote] else ascii_escape c) s)
              else s)
           @ [dquote])"

text \<open>
  The choice of writer as the amended claim C4 words it, to be compared with the
  module's \<open>dumps\<close>: \<open>json.dumps\<close> writes exactly when \<open>as_json\<close> is true, and
  \<open>as_json\<close>, when left out, is the negation of \<open>compact\<close>, itself false when left
  out.
\<close>

definition uses_json :: "bool option \<Rightarrow> bool option \<Rightarrow> bool" where
  "uses_json kw_compact kw_as_json =
     (case kw_as_json of
        Some a \<Rightarrow> a
      | None \<Rightarrow> (case kw_compact of Some c \<Rightarrow> \<not> c | None \<Rightarrow> True))"

text \<open>
  The three syntactic tests of claim C8 in its own words, to be compared with the
  conditions of \<open>walk\<close>, and the tests that a decoding returned an integer, or
  either a float or an error.
\<close>

definition hex_prefixed :: "pystr \<Rightarrow> bool" where
  "hex_prefixed s = (take 2 s = lit ''0x'' \<or> take 2 s = lit ''0X'')"

definition has_point_or_exponent :: "pystr \<Rightarrow> bool" where
  "has_point_or_exponent s =
     (of_char CHR ''.'' \<in> set s \<or> of_char CHR ''e'' \<in> set s \<or> of_char CHR ''E'' \<in> set s)"

definition names_constant :: "pystr \<Rightarrow> bool" where
  "names_constant s = (contains (lit ''Infinity'') s \<or> contains (lit ''NaN'') s)"

fun is_int_result :: "error + jval \<Rightarrow> bool" where
  "is_int_result (Inr (JInt i)) = True"
| "is_int_result r = False"

fun is_float_or_error :: "error + jval \<Rightarrow> bool" where
  "is_float_or_error (Inr (JFloat f)) = True"
| "is_float_or_error (Inl e) = True"
| "is_float_or_error r = False"

section \<open>Basic facts\<close>

lemma init_encoder_none: "init_encoder kwargs_none = Inr encoder_default"
  by (simp add: init_encoder_def kwargs_none_def encoder_default_def)

lemma global_math: "global_lookup ''math'' = Inl (NameError ''math'')"
  by (simp add: global_lookup_def module_globals_def)

lemma nonfinite_test_raises: "nonfinite_test enc f = Inl (NameError ''math'')"
  by (simp add: nonfinite_test_def math_isnan_def math_isinf_def global_math)

lemma Encoder_dumps_float:
  "Encoder_dumps (Suc n) b enc h (PFloat f) st = (Raise (NameError ''math''), st)"
  by (simp add: nonfinite_test_raises)

lemma dec_digits_range: "c \<in> set (dec_digits n) \<Longrightarrow> 48 \<le> c \<and> c \<le> 57"
proof (induction n rule: dec_digits.induct)
  case (1 n)
  show ?case
  proof (cases "n < 10")
    case True
    with "1.prems" show ?thesis by (subst (asm) dec_digits.simps) auto
  next
    case False
    with "1.prems" have "c \<in> set (dec_digits (n div 10)) \<or> c = 48 + n mod 10"
      by (subst (asm) dec_digits.simps) auto
    with False "1.IH" show ?thesis by auto
  qed
qed

lemma str_int_chars: "c \<in> set (str_int i) \<Longrightarrow> c = 45 \<or> (48 \<le> c \<and> c \<le> 57)"
  by (auto simp: str_int_def dest: dec_digits_range split: if_splits)

lemma str_int_not_token: "str_int i \<noteq> lit ''true'' \<and> str_int i \<noteq> lit ''false''"
proof -
  have "116 \<notin> set (str_int i)" "102 \<notin> set (str_int i)"
    using str_int_chars[of 116 i] str_int_chars[of 102 i] by auto
  moreover have "116 \<in> set (lit ''true'')" "102 \<in> set (lit ''false'')"
    by (simp_all add: lit_def)
  ultimately show ?thesis by metis
qed

lemma esc_char_no_squote: "c \<noteq> squote \<Longrightarrow> esc_char c True False = ascii_escape c"
  by (simp add: esc_char_def ascii_escape_def)

lemma esc_char_dquoted:
  "esc_char c False True = (if c = dquote then [bslash, dquote] else ascii_escape c)"
  by (simp add: esc_char_def ascii_escape_def)

lemma quote_str_amended: "quote_str enc s = quote_amended (ensure_ascii enc) s"
proof (cases "squote \<in> set s")
  case True
  then show ?thesis
    by (simp add: quote_str_def quote_amended_def esc_str_def esc_char_dquoted)
next
  case False
  have eq: "map (\<lambda>ch. esc_char ch True False) s = map ascii_escape s"
  proof (intro map_cong refl)
    fix x assume "x \<in> set s"
    with False have "x \<noteq> squote" by auto
    then show "esc_char x True False = ascii_escape x" by (rule esc_char_no_squote)
  qed
  from False show ?thesis
    by (simp add: quote_str_def quote_amended_def esc_str_def eq)
qed

lemma fmt_04x_four_digits:
  assumes "n < 65536"
  shows "fmt_04x n =
    [hex_digit (n div 4096), hex_digit (n div 256 mod 16),
     hex_digit (n div 16 mod 16), hex_digit (n mod 16)]"
proof -
  consider "n < 16" | "16 \<le> n" "n < 256" | "256 \<le> n" "n < 4096" | "4096 \<le> n"
    by linarith
  then show ?thesis
  proof cases
    case 1
    then show ?thesis
      by (simp add: fmt_04x_def hex_digits.simps[of n] hex_digit_def numeral_3_eq_3)
  next
    case 2
    then have "n div 16 < 16" by simp
    with 2 show ?thesis
      by (simp add: fmt_04x_def hex_digits.simps[of n] hex_digits.simps[of "n div 16"]
          hex_digit_def div_mult2_eq numeral_2_eq_2)
  next
    case 3
    then have a: "\<not> n div 16 < 16" "n div 16 div 16 < 16" by simp_all
    have b: "n div 256 = n div 16 div 16" by (simp add: div_mult2_eq)
    from 3 a b show ?thesis
      by (simp add: fmt_04x_def hex_digits.simps[of n] hex_digits.simps[of "n div 16"]
          hex_digits.simps[of "n div 16 div 16"] hex_digit_def div_mult2_eq)
  next
    case 4
    with assms have a: "\<not> n div 16 < 16" "\<not> n div 16 div 16 < 16"
      "n div 16 div 16 div 16 < 16" by simp_all
    have b: "n div 256 = n div 16 div 16" "n div 4096 = n div 16 div 16 div 16"
      by (simp_all add: div_mult2_eq)
    from 4 a b show ?thesis
      by (simp add: fmt_04x_def hex_digits.simps[of n] hex_digits.simps[of "n div 16"]
          hex_digits.simps[of "n div 16 div 16"]
          hex_digits.simps[of "n div 16 div 16 div 16"] mod_mod_cancel)
  qed
qed

section \<open>The claims\<close>

text \<open>
  Claim C1 (round trip): decoding the text the encoder produced for a value of null,
  booleans, finite numbers, strings, mappings and sequences gives the value back.
  The code does not do this for any float: \<open>_Encoder.dumps\<close> raises \<open>NameError\<close>
  on it (line 201 names \<open>math\<close>, which lib.py never imports), so there is no text to
  decode, whatever the parser and the decoder are. The value \<open>1.5\<close> is
  \<open>PFloat (Finite 3 (- 1))\<close>.
\<close>

theorem roundtrip_float_fails:
  "roundtrip parse (Suc n) b d enc h (PFloat f) = Raise (NameError ''math'')"
  by (simp add: roundtrip_def nonfinite_test_raises)

text \<open>
  Claim C2 (circular references): with check-circular on, encoding fails exactly when
  the value contains itself. The first part holds: a list that is its own element raises
  \<open>ValueError\<close> at every depth of at least two, so the recursion stops. The second
  does not: \<open>_seen_objs\<close> is never emptied, so a list holding the same empty list twice
  raises \<open>ValueError\<close> as well, although it has no cycle and encodes to
  \<open>[[], []]\<close> once the check is off.
\<close>

theorem seen_objs_flags_shared_sibling:
  "fst (Encoder_dumps (Suc (Suc n)) b (enc\<lparr>check_circular := True, indent := None\<rparr>)
         (h(0 := OList [PRef 0])) (PRef 0) (st\<lparr>seen_objs := {}\<rparr>)) = Raise ValueError
   \<and> fst (Encoder_dumps (Suc (Suc n)) b (enc\<lparr>check_circular := True, indent := None\<rparr>)
         (h(0 := OList [PRef 1, PRef 1], 1 := OList [])) (PRef 0) (st\<lparr>seen_objs := {}\<rparr>))
       = Raise ValueError
   \<and> fst (Encoder_dumps (Suc (Suc n)) b (encoder_default\<lparr>check_circular := False\<rparr>)
         (h(0 := OList [PRef 1, PRef 1], 1 := OList [])) (PRef 0) init_state)
       = Return (Some (lit ''[[], []]''))"
  by (simp add: mark_seen_def lit_def encoder_default_def init_state_def)

text \<open>
  Claim C3 (floats): a non-finite float fails or becomes \<open>NaN\<close>, \<open>Infinity\<close>,
  \<open>-Infinity\<close> according to allow-non-finite, and a finite float becomes its shortest
  decimal form. The code does neither: for every float and every configuration the call
  ends in \<open>NameError\<close>, because the test of line 201 looks up \<open>math\<close>.
\<close>

theorem float_never_encoded:
  "fst (Encoder_dumps (Suc n) b enc h (PFloat f) st) = Raise (NameError ''math'')"
  by (simp add: nonfinite_test_raises)

text \<open>
  Claim C4 (compact mode), as amended: \<open>json.dumps\<close> is called exactly when
  \<open>as_json\<close> is true, and \<open>as_json\<close> defaults to the negation of \<open>compact\<close>
  (\<open>uses_json\<close>); in every other case the text comes from \<open>_Encoder\<close>. So with
  \<open>compact\<close> selected and \<open>as_json\<close> left out, or with \<open>as_json\<close> false, the
  text comes from \<open>_Encoder\<close>; with neither given, with \<open>compact\<close> false and
  \<open>as_json\<close> left out, or with \<open>as_json\<close> true, it comes from \<open>json.dumps\<close>.
\<close>

theorem compact_selects_encoder:
  "dumps jd fuel b c a kw h obj =
     (if uses_json c a
      then (case jd kw h obj of Inl e \<Rightarrow> Raise e | Inr s \<Rightarrow> Return (Some s))
      else (case init_encoder kw of
              Inl e \<Rightarrow> Raise e
            | Inr enc \<Rightarrow> fst (Encoder_dumps fuel b enc h obj init_state)))
   \<and> dumps jd fuel b (Some True) None kw h obj =
       (case init_encoder kw of
          Inl e \<Rightarrow> Raise e
        | Inr enc \<Rightarrow> fst (Encoder_dumps fuel b enc h obj init_state))
   \<and> dumps jd fuel b c (Some False) kw h obj =
       (case init_encoder kw of
          Inl e \<Rightarrow> Raise e
        | Inr enc \<Rightarrow> fst (Encoder_dumps fuel b enc h obj init_state))
   \<and> dumps jd fuel b (Some False) None kw h obj =
       (case jd kw h obj of Inl e \<Rightarrow> Raise e | Inr s \<Rightarrow> Return (Some s))
   \<and> dumps jd fuel b None None kw h obj =
       (case jd kw h obj of Inl e \<Rightarrow> Raise e | Inr s \<Rightarrow> Return (Some s))
   \<and> dumps jd fuel b c (Some True) kw h obj =
       (case jd kw h obj of Inl e \<Rightarrow> Raise e | Inr s \<Rightarrow> Return (Some s))"
  by (simp add: dumps_def uses_json_def split: option.splits)

text \<open>
  Claim C4 as stated fails: with \<open>compact\<close> selected, the dict \<open>{'a': 1}\<close> comes out
  as \<open>{a: 1}\<close>, with a bare key, written by \<open>_Encoder\<close> and not by \<open>json.dumps\<close>.
\<close>

theorem compact_not_json_counterexample:
  "dumps json_dumps_stub (Suc (Suc 0)) builtins_unused (Some True) None kwargs_none
     (heap_empty(0 := ODict [(PStr (lit ''a''), PInt 1)])) (PRef 0)
   = Return (Some (lit ''{a: 1}''))"
  by (simp add: dumps_def init_encoder_none encoder_default_def init_state_def mark_seen_def
      esc_key_def notletter_search_def is_word_def lit_def str_py_def str_int_def
      dec_digits.simps builtins_unused_def)

text \<open>
  Claim C5 (default hook): a value of an unrecognised type goes to the configured
  default-hook and its substitute is encoded. The code never calls the hook: line 259
  calls the method \<open>_default\<close>, which raises \<open>TypeError\<close>, whatever hook the encoder
  was given, directly or through the module's \<open>dumps\<close>.
\<close>

theorem default_hook_never_called:
  "fst (Encoder_dumps (Suc n) b (enc\<lparr>default_hook := hk\<rparr>) h (POther ty) st) = Raise TypeError
   \<and> dumps jd (Suc n) b (Some True) None (kw\<lparr>kw_cls := None, kw_default := Some hk\<rparr>) h
         (POther ty) = Raise TypeError"
  by (simp add: default_method_def dumps_def init_encoder_def)

text \<open>
  Claim C6 (quote selection), as amended: a string without a single quote is wrapped in
  single quotes and no quote in it is escaped; any other string is wrapped in double
  quotes, its single quotes are not escaped, and with ascii-only each double quote in
  it is written as backslash and double quote. With ascii-only, a character outside 32
  to 127 and below 65536 is written as \<open>\u\<close> and exactly four hexadecimal digits.
\<close>

theorem quote_selection_amended:
  "fst (Encoder_dumps (Suc n) b enc h (PStr s) st)
     = Return (Some (quote_amended (ensure_ascii enc) s))
   \<and> ((c < 32 \<or> 128 \<le> c) \<and> c < 65536 \<longrightarrow>
        ascii_escape c =
          [bslash, of_char CHR ''u'', hex_digit (c div 4096), hex_digit (c div 256 mod 16),
           hex_digit (c div 16 mod 16), hex_digit (c mod 16)])"
  by (auto simp: quote_str_amended ascii_escape_def fmt_04x_four_digits lit_def)

text \<open>
  The amended claim at the string \<open>it's\<close> and the character U+00E9: the output is
  \<open>"it's"\<close>, and the character is written \<open>\u00e9\<close>.
\<close>

theorem quote_selection_amended_witness:
  "fst (Encoder_dumps (Suc 0) builtins_unused encoder_default heap_empty
         (PStr (lit ''it'' @ [squote] @ lit ''s'')) init_state)
     = Return (Some ([dquote] @ lit ''it'' @ [squote] @ lit ''s'' @ [dquote]))
   \<and> ((233::nat) < 32 \<or> (128::nat) \<le> 233) \<and> (233::nat) < 65536
   \<and> ascii_escape 233 = bslash # lit ''u00e9''"
  using quote_selection_amended [of 0 builtins_unused encoder_default heap_empty
      "lit ''it'' @ [squote] @ lit ''s''" init_state 233]
  by (simp add: quote_amended_def ascii_escape_def encoder_default_def lit_def squote_def
      dquote_def bslash_def hex_digit_def)

text \<open>
  Claim C6 as stated fails: the string made of a single quote and a double quote is
  wrapped in double quotes and its double quote, the wrapping character, is escaped;
  and the character U+1F600 is written with five hexadecimal digits.
\<close>

theorem wrapping_quote_escaped_counterexample:
  "fst (Encoder_dumps (Suc 0) builtins_unused encoder_default heap_empty
         (PStr [squote, dquote]) init_state)
     = Return (Some [dquote, squote, bslash, dquote, dquote])
   \<and> fst (Encoder_dumps (Suc 0) builtins_unused encoder_default heap_empty
         (PStr [128512]) init_state)
     = Return (Some ([squote, bslash] @ lit ''u1f600'' @ [squote]))"
  by (simp add: quote_str_def esc_str_def esc_char_def encoder_default_def squote_def
      dquote_def bslash_def lit_def fmt_04x_def hex_digits.simps hex_digit_def)

text \<open>
  Claim C7 (mapping keys): a key that is a string, an integer, a float, a boolean or
  null is accepted and rendered. The code accepts all five types at line 224 and then
  hands the key to the pattern search of \<open>_esc_key\<close>, which raises \<open>TypeError\<close> on
  everything but text: the dict \<open>{1: 2}\<close> is not encoded.
\<close>

theorem non_string_key_raises:
  "valid_key_type (PInt i) \<and> esc_key ua enc (PInt i) = Inl TypeError
   \<and> valid_key_type (PFloat f) \<and> esc_key ua enc (PFloat f) = Inl TypeError
   \<and> valid_key_type (PBool v) \<and> esc_key ua enc (PBool v) = Inl TypeError
   \<and> valid_key_type PNone \<and> esc_key ua enc PNone = Inl TypeError
   \<and> fst (Encoder_dumps (Suc (Suc n)) b (enc\<lparr>indent := None, sort_keys := False\<rparr>)
         (h(a := ODict [(PInt 1, PInt 2)])) (PRef a) (st\<lparr>seen_objs := {}\<rparr>))
       = Raise TypeError"
  by (simp add: esc_key_def mark_seen_def)

text \<open>
  Claim C8 (number literals): a literal that starts with \<open>0x\<close> or \<open>0X\<close> goes to the
  integer parser with base 16, so that \<open>0x1A\<close> and \<open>0X1a\<close> are 26; any other
  literal with a point or an exponent marker goes to the float parser; any other that
  names \<open>Infinity\<close> or \<open>NaN\<close> goes to the constant parser; the rest go to the integer
  parser. With the default parsers: a literal with the prefix is what \<open>int\<close> makes of
  it in base 16, an integer; any other literal with a point or an exponent marker is
  what \<open>float\<close> makes of it, a float (or the error \<open>float\<close> raises), never an
  integer and never text; a constant is what \<open>float\<close> makes of its name, a float; the
  rest are what \<open>int\<close> makes of them. So the result is an integer only for a literal
  with the prefix, or with no point, no exponent marker and no constant name.
\<close>

theorem walk_number_classification:
  "walk d (Number s) =
     (if hex_prefixed s then parse_int d s (Some 16)
      else if has_point_or_exponent s then parse_float d s
      else if names_constant s then parse_constant d s
      else parse_int d s None)
   \<and> (case init_decoder b decoder_kwargs_none of
         Inl e \<Rightarrow> False
       | Inr d0 \<Rightarrow>
           walk d0 (Number (lit ''0x1A'')) = Inr (JInt 26)
         \<and> walk d0 (Number (lit ''0X1a'')) = Inr (JInt 26)
         \<and> walk d0 (Number (lit ''3'')) = Inr (JInt 3)
         \<and> walk d0 (Number (lit ''3.0'')) = float_default b (lit ''3.0'')
         \<and> walk d0 (Number (lit ''3e2'')) = float_default b (lit ''3e2'')
         \<and> walk d0 (Number (lit ''-Infinity'')) = parse_constant_method b (lit ''-Infinity'')
         \<and> walk d0 (Number (lit ''NaN'')) = parse_constant_method b (lit ''NaN'')
         \<and> (hex_prefixed s \<longrightarrow>
              walk d0 (Number s) =
                (case int_py b s (Some 16) of Inl e \<Rightarrow> Inl e | Inr i \<Rightarrow> Inr (JInt i)))
         \<and> (\<not> hex_prefixed s \<and> has_point_or_exponent s \<longrightarrow>
              walk d0 (Number s) =
                (case float_py b s of Inl e \<Rightarrow> Inl e | Inr f \<Rightarrow> Inr (JFloat f))
              \<and> is_float_or_error (walk d0 (Number s))
              \<and> \<not> is_int_result (walk d0 (Number s)))
         \<and> (\<not> hex_prefixed s \<and> \<not> has_point_or_exponent s \<and> names_constant s \<longrightarrow>
              walk d0 (Number s) =
                (case float_py b (replace (replace s (lit ''Infinity'') (lit ''inf''))
                                    (lit ''NaN'') (lit ''nan'')) of
                   Inl e \<Rightarrow> Inl e
                 | Inr f \<Rightarrow> Inr (JFloat f))
              \<and> is_float_or_error (walk d0 (Number s)))
         \<and> (\<not> hex_prefixed s \<and> \<not> has_point_or_exponent s \<and> \<not> names_constant s \<longrightarrow>
              walk d0 (Number s) =
                (case int_py b s None of Inl e \<Rightarrow> Inl e | Inr i \<Rightarrow> Inr (JInt i)))
         \<and> (is_int_result (walk d0 (Number s)) \<longrightarrow>
              hex_prefixed s \<or> (\<not> has_point_or_exponent s \<and> \<not> names_constant s)))"
  by (auto simp: hex_prefixed_def has_point_or_exponent_def names_constant_def
      init_decoder_def decoder_kwargs_none_def int_default_def int_py_def int_literal_def
      lit_def digit_val_def float_default_def parse_constant_method_def split: sum.splits)

text \<open>
  The classification at three literals, with a \<open>float\<close> that reads \<open>3.0\<close>: the
  default decoder makes the integer 42 of \<open>42\<close>, which has no prefix, no point, no
  exponent marker and no constant name; the float 3 of \<open>3.0\<close>, which has a point; and
  the integer 26 of \<open>0x1A\<close>, which has the prefix.
\<close>

theorem walk_number_classification_witness:
  "(case init_decoder builtins_sample decoder_kwargs_none of
      Inl e \<Rightarrow> False
    | Inr d0 \<Rightarrow>
        is_int_result (walk d0 (Number (lit ''42'')))
      \<and> walk d0 (Number (lit ''42'')) = Inr (JInt 42)
      \<and> walk d0 (Number (lit ''3.0'')) = Inr (JFloat (Finite 3 0))
      \<and> is_float_or_error (walk d0 (Number (lit ''3.0'')))
      \<and> walk d0 (Number (lit ''0x1A'')) = Inr (JInt 26))
   \<and> \<not> hex_prefixed (lit ''42'') \<and> \<not> has_point_or_exponent (lit ''42'')
   \<and> \<not> names_constant (lit ''42'')
   \<and> \<not> hex_prefixed (lit ''3.0'') \<and> has_point_or_exponent (lit ''3.0'')
   \<and> hex_prefixed (lit ''0x1A'')"
  using walk_number_classification [of _ "lit ''42''" builtins_sample]
    walk_number_classification [of _ "lit ''3.0''" builtins_sample]
    walk_number_classification [of _ "lit ''0x1A''" builtins_sample]
  by (simp add: hex_prefixed_def has_point_or_exponent_def names_constant_def
      init_decoder_def decoder_kwargs_none_def int_default_def int_py_def int_literal_def
      lit_def digit_val_def float_default_def builtins_sample_def)

text \<open>
  Claim C9 (indentation): with indent set, a mapping or a sequence is written with a
  newline and indent times level spaces before each element and before the closing
  bracket. The code writes nothing: with \<open>self.indent\<close> set, lines 218 and 245 read
  the local variable \<open>indent\<close> before it has a value, and every list and every dict
  ends in \<open>UnboundLocalError\<close>, the empty ones included.
\<close>

theorem indent_set_raises:
  "fst (Encoder_dumps (Suc n) b (enc\<lparr>indent := Some w\<rparr>) (h(a := OList els)) (PRef a)
         (st\<lparr>seen_objs := {}\<rparr>)) = Raise (UnboundLocalError ''indent'')
   \<and> fst (Encoder_dumps (Suc n) b (enc\<lparr>indent := Some w, sort_keys := False\<rparr>)
         (h(a := ODict kvs)) (PRef a) (st\<lparr>seen_objs := {}\<rparr>))
       = Raise (UnboundLocalError ''indent'')"
  by (simp add: mark_seen_def)

text \<open>
  Claim C10 (booleans and integers): \<open>True\<close> and \<open>False\<close> are written \<open>true\<close> and
  \<open>false\<close>; the integers 1 and 0 are written \<open>1\<close> and \<open>0\<close>, whatever the
  interpreter's limit on digits; every integer within that limit is written as its
  decimal digits, any other raises \<open>ValueError\<close>; and no integer at all is written as
  one of the two boolean tokens.
\<close>

theorem bool_and_int_tokens:
  "fst (Encoder_dumps (Suc n) b enc h (PBool True) st) = Return (Some (lit ''true''))
   \<and> fst (Encoder_dumps (Suc n) b enc h (PBool False) st) = Return (Some (lit ''false''))
   \<and> fst (Encoder_dumps (Suc n) b enc h (PInt 1) st) = Return (Some (lit ''1''))
   \<and> fst (Encoder_dumps (Suc n) b enc h (PInt 0) st) = Return (Some (lit ''0''))
   \<and> (max_str_digits b = 0 \<or> length (dec_digits (nat \<bar>i\<bar>)) \<le> max_str_digits b \<longrightarrow>
        fst (Encoder_dumps (Suc n) b enc h (PInt i) st) = Return (Some (str_int i)))
   \<and> (fst (Encoder_dumps (Suc n) b enc h (PInt i) st) = Return (Some (str_int i))
        \<or> fst (Encoder_dumps (Suc n) b enc h (PInt i) st) = Raise ValueError)
   \<and> str_int i \<noteq> lit ''true'' \<and> str_int i \<noteq> lit ''false''
   \<and> fst (Encoder_dumps (Suc n) b enc h (PInt i) st) \<noteq> Return (Some (lit ''true''))
   \<and> fst (Encoder_dumps (Suc n) b enc h (PInt i) st) \<noteq> Return (Some (lit ''false''))"
  using str_int_not_token [of i]
  by (auto simp: str_py_def str_int_def dec_digits.simps lit_def)

text \<open>
  The claim at the integer 42 under the default limit of 4300 digits: its two digits
  are within the limit, and it is written \<open>42\<close>.
\<close>

theorem bool_and_int_tokens_witness:
  "((4300::nat) = 0 \<or> length (dec_digits (nat \<bar>42\<bar>)) \<le> 4300)
   \<and> fst (Encoder_dumps (Suc 0) builtins_unused encoder_default heap_empty (PInt 42)
          init_state) = Return (Some (lit ''42''))"
  using bool_and_int_tokens [of 0 builtins_unused encoder_default heap_empty init_state 42]
  by (simp add: builtins_unused_def str_int_def dec_digits.simps lit_def)

end
